theory Spec2Isabelle
  imports Main
begin

section \<open>Errors, time and call outcomes\<close>

text \<open>
  A Go \<^verbatim>\<open>error\<close> value is either built by \<^verbatim>\<open>fmt.Errorf(msg)\<close>, or wraps another
  one: \<^verbatim>\<open>fmt.Errorf(prefix + "%w", err)\<close> is \<open>Wrapf prefix err\<close>. Errors reported by the
  driver are values of the same type. \<open>error_string\<close> is the \<^verbatim>\<open>Error()\<close> method, which is
  also what \<^verbatim>\<open>%v\<close> prints.
\<close>

datatype error = Errorf string | Wrapf string error

fun error_string :: "error \<Rightarrow> string" where
  "error_string (Errorf msg) = msg"
| "error_string (Wrapf prefix err) = prefix @ error_string err"

text \<open>
  \<^verbatim>\<open>time.Time\<close> and \<^verbatim>\<open>time.Duration\<close> are counts of nanoseconds. The code only compares
  and stores them, so no arithmetic can overflow.
\<close>

type_synonym time = int
type_synonym duration = int

definition Millisecond :: duration where
  "Millisecond = 1000000"

definition Second :: duration where
  "Second = 1000 * Millisecond"

text \<open>
  A call either returns, panics with a value, or never returns because it waits for
  something that does not happen.
\<close>

datatype 'a outcome = Returned 'a | Panicked string | Blocked

section \<open>Configuration (config.go)\<close>

text \<open>
  The structs of \<^verbatim>\<open>config.go\<close>, field by field. Go's \<^verbatim>\<open>int\<close> fields are only ever
  compared, with 0 and with each other, so they are integers here.
\<close>

record PoolConfig =
  MaxOpenConns :: int
  MaxIdleConns :: int
  ConnMaxLifetime :: duration
  ConnMaxIdleTime :: duration

record SlaveConfig =
  DSN :: string
  Type :: string
  Weight :: int
  PoolConfig :: PoolConfig

record LogConfig =
  Enabled :: bool
  Level :: string
  Colorful :: bool
  IgnoreRecordNotFoundError :: bool
  ParameterizedQueries :: bool

record SlowQueryConfig =
  Enabled :: bool
  Threshold :: duration
  LogParams :: bool

record MonitorConfig =
  Enabled :: bool
  HealthCheckInterval :: duration
  ConnectionTimeout :: duration
  MaxRetries :: int

record Config =
  Master :: string
  Slaves :: "SlaveConfig list"
  Type :: string
  PoolConfig :: PoolConfig
  LogConfig :: LogConfig
  SlowQueryConfig :: SlowQueryConfig
  MonitorConfig :: MonitorConfig

section \<open>Configuration validation (manager.go)\<close>

text \<open>
  \<^verbatim>\<open>validateConfig\<close>, check by check in the order of the source. \<open>None\<close> is the
  \<^verbatim>\<open>nil\<close> error.
\<close>

definition validateConfig :: "Config \<Rightarrow> error option" where
  "validateConfig config =
    (if Master config = [] then
       Some (Errorf ''master database DSN cannot be empty'')
     else if Config.Type config = [] then
       Some (Errorf ''database type cannot be empty'')
     else if MaxOpenConns (Config.PoolConfig config) < 0 then
       Some (Errorf ''max open connections cannot be negative'')
     else if MaxIdleConns (Config.PoolConfig config) < 0 then
       Some (Errorf ''max idle connections cannot be negative'')
     else if MaxIdleConns (Config.PoolConfig config) > MaxOpenConns (Config.PoolConfig config)
             \<and> MaxOpenConns (Config.PoolConfig config) > 0 then
       Some (Errorf ''max idle connections cannot be greater than max open connections'')
     else if SlowQueryConfig.Enabled (SlowQueryConfig config)
             \<and> Threshold (SlowQueryConfig config) \<le> 0 then
       Some (Errorf ''slow query threshold must be positive when enabled'')
     else if MonitorConfig.Enabled (MonitorConfig config) then
       (if HealthCheckInterval (MonitorConfig config) \<le> 0 then
          Some (Errorf ''health check interval must be positive when monitoring is enabled'')
        else if ConnectionTimeout (MonitorConfig config) \<le> 0 then
          Some (Errorf ''connection timeout must be positive when monitoring is enabled'')
        else if MaxRetries (MonitorConfig config) < 0 then
          Some (Errorf ''max retries cannot be negative'')
        else None)
     else None)"

section \<open>The default logger (manager.go, logger.go)\<close>

text \<open>
  \<^verbatim>\<open>type LogLevel int\<close> with \<^verbatim>\<open>Silent = iota + 1\<close>: the four named levels are
  1 to 4, and the zero value 0 of a logger whose level was never set is below all of them.
\<close>

type_synonym LogLevel = int

definition Silent :: LogLevel where
  "Silent = 1"

definition Error :: LogLevel where
  "Error = 2"

definition Warn :: LogLevel where
  "Warn = 3"

definition Info :: LogLevel where
  "Info = 4"

text \<open>
  The standard library's \<^verbatim>\<open>*log.Logger\<close> is its prefix and the calls of \<^verbatim>\<open>Printf\<close> made
  on it so far, each the format string and its arguments. Formatting itself is left to the
  library.
\<close>

datatype arg = ADuration duration | AInt int | AString string | AError error

record stdLogger =
  prefix :: string
  printed :: "(string \<times> arg list) list"

definition Printf :: "stdLogger \<Rightarrow> string \<Rightarrow> arg list \<Rightarrow> stdLogger" where
  "Printf lg format args = lg\<lparr>printed := printed lg @ [(format, args)]\<rparr>"

record DefaultLogger =
  config :: LogConfig
  logger :: stdLogger
  logLevel :: LogLevel

definition LogMode :: "DefaultLogger \<Rightarrow> LogLevel \<Rightarrow> DefaultLogger" where
  "LogMode l level = l\<lparr>logLevel := level\<rparr>"

definition printf :: "DefaultLogger \<Rightarrow> string \<Rightarrow> arg list \<Rightarrow> DefaultLogger" where
  "printf l format args = l\<lparr>logger := Printf (logger l) format args\<rparr>"

definition getSlowThreshold :: "DefaultLogger \<Rightarrow> duration" where
  "getSlowThreshold l = 200 * Millisecond"

text \<open>
  \<^verbatim>\<open>Trace\<close>. \<open>now\<close> is the clock when \<^verbatim>\<open>time.Since(begin)\<close> reads it; \<open>fc\<close> is
  called only past the level check, as in the source. The format strings hold the source's
  text byte for byte, the Chinese words as their UTF-8 bytes.
\<close>

definition Trace ::
  "DefaultLogger \<Rightarrow> time \<Rightarrow> time \<Rightarrow> (unit \<Rightarrow> string \<times> int) \<Rightarrow> error option \<Rightarrow> DefaultLogger"
where
  "Trace l begin now fc err =
    (if logLevel l \<le> Silent then l
     else
       (let elapsed = now - begin; (sql, rows) = fc () in
        if err \<noteq> None \<and> logLevel l \<ge> Error then
          printf l
            (''[ERROR] SQL''
               @ [CHR 0xE6, CHR 0x89, CHR 0xA7, CHR 0xE8, CHR 0xA1, CHR 0x8C,
                  CHR 0xE5, CHR 0xA4, CHR 0xB1, CHR 0xE8, CHR 0xB4, CHR 0xA5]
               @ '' [%v] [rows:%d] %s | %v'')
            [ADuration elapsed, AInt rows, AString sql, AError (the err)]
        else if elapsed > getSlowThreshold l \<and> logLevel l \<ge> Warn then
          printf l
            (''[WARN] ''
               @ [CHR 0xE6, CHR 0x85, CHR 0xA2, CHR 0xE6, CHR 0x9F, CHR 0xA5, CHR 0xE8, CHR 0xAF,
                  CHR 0xA2, CHR 0xE6, CHR 0xA3, CHR 0x80, CHR 0xE6, CHR 0xB5, CHR 0x8B]
               @ '' [%v] [rows:%d] %s'')
            [ADuration elapsed, AInt rows, AString sql]
        else if logLevel l = Info then
          printf l
            (''[INFO] SQL''
               @ [CHR 0xE6, CHR 0x89, CHR 0xA7, CHR 0xE8, CHR 0xA1, CHR 0x8C]
               @ '' [%v] [rows:%d] %s'')
            [ADuration elapsed, AInt rows, AString sql]
        else l))"

text \<open>
  What a call added to the logger's output, and the level an output line carries: the tag
  its format string starts with.
\<close>

definition emitted :: "DefaultLogger \<Rightarrow> DefaultLogger \<Rightarrow> (string \<times> arg list) list" where
  "emitted l l' = drop (length (printed (logger l))) (printed (logger l'))"

definition line_level :: "string \<times> arg list \<Rightarrow> LogLevel option" where
  "line_level ln =
    (if take 8 (fst ln) = ''[ERROR] '' then Some Error
     else if take 7 (fst ln) = ''[WARN] '' then Some Warn
     else if take 7 (fst ln) = ''[INFO] '' then Some Info
     else None)"

text \<open>
  The classification in the specification's words, for a slow-operation threshold given as
  a parameter: a failure is an Error, a slow call a Warn, any other call an Info, and a
  logger at level \<open>L\<close> emits it when it is at or below \<open>L\<close> and \<open>L\<close> is above Silent.
\<close>

definition trace_class :: "duration \<Rightarrow> duration \<Rightarrow> error option \<Rightarrow> LogLevel" where
  "trace_class threshold elapsed err =
    (if err \<noteq> None then Error else if elapsed > threshold then Warn else Info)"

definition trace_spec :: "duration \<Rightarrow> LogLevel \<Rightarrow> duration \<Rightarrow> error option \<Rightarrow> LogLevel option list" where
  "trace_spec threshold L elapsed err =
    (if L \<le> Silent then []
     else if trace_class threshold elapsed err \<le> L then [Some (trace_class threshold elapsed err)]
     else [])"

section \<open>The driver and the resolver plugin, as the manager sees them\<close>

text \<open>
  \<^verbatim>\<open>getDialector\<close>: the three driver families the manager knows, each holding the DSN it
  was opened on.
\<close>

datatype Dialector = MysqlDialector string | PostgresDialector string | SqliteDialector string

definition getDialector :: "string \<Rightarrow> string \<Rightarrow> error + Dialector" where
  "getDialector dsn dbType =
    (if dbType = ''mysql'' then Inr (MysqlDialector dsn)
     else if dbType = ''postgres'' \<or> dbType = ''postgresql'' then Inr (PostgresDialector dsn)
     else if dbType = ''sqlite'' \<or> dbType = ''sqlite3'' then Inr (SqliteDialector dsn)
     else Inl (Errorf (''unsupported database type: '' @ dbType)))"

text \<open>
  A \<^verbatim>\<open>*sql.DB\<close> is an address in a store of connection pools; \<open>allocated\<close> counts the
  addresses handed out so far. A pool records whether it was closed and the last value
  each setter was called with (\<open>None\<close>: never called, the driver's default stands). A
  handle is open while its pool is not closed.
\<close>

record sqlDB =
  closed :: bool
  maxOpenConns :: "int option"
  maxIdleConns :: "int option"
  connMaxLifetime :: "duration option"
  connMaxIdleTime :: "duration option"

record store =
  pools :: "nat \<Rightarrow> sqlDB"
  allocated :: nat

definition new_sqlDB :: sqlDB where
  "new_sqlDB = \<lparr>closed = False, maxOpenConns = None, maxIdleConns = None,
                 connMaxLifetime = None, connMaxIdleTime = None\<rparr>"

definition empty_store :: store where
  "empty_store = \<lparr>pools = (\<lambda>p. new_sqlDB), allocated = 0\<rparr>"

definition open_handles :: "store \<Rightarrow> nat list" where
  "open_handles st = filter (\<lambda>p. \<not> closed (pools st p)) [0..<allocated st]"

text \<open>
  The configuration the manager hands to the resolver plugin (\<^verbatim>\<open>dbresolver.Config\<close>), and
  the plugin's policies; the manager only ever names \<^verbatim>\<open>RandomPolicy\<close>.
\<close>

datatype Policy = RandomPolicy

record resolverConfig =
  Sources :: "Dialector list"
  Replicas :: "Dialector list"
  Policy :: Policy
  TraceResolverMode :: bool

text \<open>
  A \<^verbatim>\<open>*gorm.DB\<close>: the dialector it was opened on, what \<^verbatim>\<open>db.DB()\<close> answers (the pool's
  address or an error), and the resolver registered on it by \<^verbatim>\<open>db.Use\<close>, if any.
\<close>

record gormDB =
  dialector :: Dialector
  ConnPool :: "error + nat"
  resolver :: "resolverConfig option"

text \<open>
  What the driver answers during construction: whether \<^verbatim>\<open>gorm.Open\<close> fails on a
  dialector, whether \<^verbatim>\<open>db.DB()\<close> of the opened handle fails, and whether registering a
  resolver configuration with \<^verbatim>\<open>db.Use\<close> fails.
\<close>

record driver =
  open_err :: "Dialector \<Rightarrow> error option"
  db_err :: "error option"
  use_err :: "resolverConfig \<Rightarrow> error option"

definition gorm_Open :: "driver \<Rightarrow> store \<Rightarrow> Dialector \<Rightarrow> store \<times> (error + gormDB)" where
  "gorm_Open drv st d =
    (case open_err drv d of
       Some err \<Rightarrow> (st, Inl err)
     | None \<Rightarrow>
         (st\<lparr>pools := (pools st)(allocated st := new_sqlDB), allocated := Suc (allocated st)\<rparr>,
          Inr \<lparr>dialector = d,
               ConnPool = (case db_err drv of Some err \<Rightarrow> Inl err | None \<Rightarrow> Inr (allocated st)),
               resolver = None\<rparr>))"

text \<open>
  \<^verbatim>\<open>(*sql.DB).Close\<close> of the standard library answers \<^verbatim>\<open>nil\<close> on a pool that is already
  closed; otherwise it marks the pool closed and answers what closing the connections
  gave, \<open>close_err\<close>.
\<close>

definition sqlDB_Close :: "store \<Rightarrow> nat \<Rightarrow> error option \<Rightarrow> store \<times> error option" where
  "sqlDB_Close st p close_err =
    (if closed (pools st p) then (st, None)
     else (st\<lparr>pools := (pools st)(p := (pools st p)\<lparr>closed := True\<rparr>)\<rparr>, close_err))"

section \<open>The manager (manager.go, manager_impl.go)\<close>

record HealthStatus =
  IsHealthy :: bool
  LastCheckTime :: time
  ErrorMessage :: string
  ResponseTime :: duration

text \<open>
  A \<^verbatim>\<open>Logger\<close> is the default logger or an implementation the caller supplied, of
  which the manager knows nothing but its identity.
\<close>

datatype Logger = Default DefaultLogger | Supplied nat

text \<open>
  \<^verbatim>\<open>DBManager\<close>. \<open>db\<close> and \<open>logger\<close> are \<open>None\<close> while \<^verbatim>\<open>nil\<close>; \<open>cancelled\<close> is
  the state of \<^verbatim>\<open>ctx\<close> (set by \<^verbatim>\<open>cancel\<close>), \<open>wg\<close> the wait group's counter. Every method
  that takes \<^verbatim>\<open>mu\<close> releases it by \<^verbatim>\<open>defer\<close> on each of its exits, so between the calls of
  one thread the guard is free and it has no field here. The slow-query logger is built
  once by \<^verbatim>\<open>NewManager\<close> and read by no method.
\<close>

record DBManager =
  config :: Config
  db :: "gormDB option"
  logger :: "Logger option"
  healthStatus :: "string \<rightharpoonup> HealthStatus"
  lastHealthCheck :: time
  cancelled :: bool
  wg :: nat

definition newDefaultLogger :: "DBManager \<Rightarrow> DefaultLogger" where
  "newDefaultLogger m =
    \<lparr>DefaultLogger.config = LogConfig (config m),
     DefaultLogger.logger = \<lparr>prefix = ''[DATABASE] '', printed = []\<rparr>,
     logLevel = 0\<rparr>"

definition configureConnectionPool :: "store \<Rightarrow> gormDB \<Rightarrow> PoolConfig \<Rightarrow> store \<times> error option" where
  "configureConnectionPool st gdb pc =
    (case ConnPool gdb of
       Inl err \<Rightarrow> (st, Some err)
     | Inr p \<Rightarrow>
         (let pool = pools st p;
              pool1 = (if MaxOpenConns pc > 0
                       then pool\<lparr>maxOpenConns := Some (MaxOpenConns pc)\<rparr> else pool);
              pool2 = (if MaxIdleConns pc > 0
                       then pool1\<lparr>maxIdleConns := Some (MaxIdleConns pc)\<rparr> else pool1);
              pool3 = (if ConnMaxLifetime pc > 0
                       then pool2\<lparr>connMaxLifetime := Some (ConnMaxLifetime pc)\<rparr> else pool2);
              pool4 = (if ConnMaxIdleTime pc > 0
                       then pool3\<lparr>connMaxIdleTime := Some (ConnMaxIdleTime pc)\<rparr> else pool3)
          in (st\<lparr>pools := (pools st)(p := pool4)\<rparr>, None)))"

text \<open>
  \<^verbatim>\<open>configureDBResolver\<close>: one dialector per configured replica, in order, stopping at
  the first that \<^verbatim>\<open>getDialector\<close> refuses; then the primary's as the only source. The
  second loop of the source sets \<^verbatim>\<open>TraceResolverMode\<close> once per replica.
\<close>

fun slave_dialectors :: "SlaveConfig list \<Rightarrow> error + Dialector list" where
  "slave_dialectors [] = Inr []"
| "slave_dialectors (slaveConfig # rest) =
    (case getDialector (DSN slaveConfig) (SlaveConfig.Type slaveConfig) of
       Inl err \<Rightarrow>
         Inl (Wrapf (''failed to get dialector for slave '' @ DSN slaveConfig @ '': '') err)
     | Inr d \<Rightarrow>
         (case slave_dialectors rest of
            Inl err \<Rightarrow> Inl err
          | Inr ds \<Rightarrow> Inr (d # ds)))"

definition configureDBResolver :: "driver \<Rightarrow> Config \<Rightarrow> gormDB \<Rightarrow> error + gormDB" where
  "configureDBResolver drv cfg gdb =
    (case slave_dialectors (Slaves cfg) of
       Inl err \<Rightarrow> Inl err
     | Inr replicas \<Rightarrow>
         (case getDialector (Master cfg) (Config.Type cfg) of
            Inl err \<Rightarrow> Inl (Wrapf ''failed to get dialector for master: '' err)
          | Inr masterDialector \<Rightarrow>
              (let resolverConfig =
                     \<lparr>Sources = [masterDialector], Replicas = replicas, Policy = RandomPolicy,
                      TraceResolverMode = (Slaves cfg \<noteq> [])\<rparr>
               in case use_err drv resolverConfig of
                    Some err \<Rightarrow> Inl err
                  | None \<Rightarrow> Inr (gdb\<lparr>resolver := Some resolverConfig\<rparr>))))"

text \<open>
  \<^verbatim>\<open>initDB\<close>. No exit of it, and no exit of \<^verbatim>\<open>NewManager\<close> below, calls \<^verbatim>\<open>Close\<close> on
  the handle \<^verbatim>\<open>gorm.Open\<close> returned. The GORM logger built by \<^verbatim>\<open>createGormLogger\<close> is
  configuration passed through to the driver and decides no outcome here.
\<close>

definition initDB :: "driver \<Rightarrow> store \<Rightarrow> DBManager \<Rightarrow> store \<times> (error + DBManager)" where
  "initDB drv st m =
    (case getDialector (Master (config m)) (Config.Type (config m)) of
       Inl err \<Rightarrow> (st, Inl (Wrapf ''failed to get dialector for master: '' err))
     | Inr d \<Rightarrow>
         (case gorm_Open drv st d of
            (st1, Inl err) \<Rightarrow> (st1, Inl (Wrapf ''failed to connect to master database: '' err))
          | (st1, Inr gdb) \<Rightarrow>
              (case configureConnectionPool st1 gdb (Config.PoolConfig (config m)) of
                 (st2, Some err) \<Rightarrow>
                   (st2, Inl (Wrapf ''failed to configure master connection pool: '' err))
               | (st2, None) \<Rightarrow>
                   (if Slaves (config m) \<noteq> [] then
                      (case configureDBResolver drv (config m) gdb of
                         Inl err \<Rightarrow> (st2, Inl (Wrapf ''failed to configure db resolver: '' err))
                       | Inr gdb' \<Rightarrow> (st2, Inr (m\<lparr>db := Some gdb'\<rparr>)))
                    else (st2, Inr (m\<lparr>db := Some gdb\<rparr>))))))"

text \<open>
  \<^verbatim>\<open>startMonitoring\<close> adds the monitoring goroutine to the wait group; the goroutine
  leaves it when it sees the context cancelled.
\<close>

definition startMonitoring :: "DBManager \<Rightarrow> DBManager" where
  "startMonitoring m = m\<lparr>wg := wg m + 1\<rparr>"

text \<open>
  The struct literal of \<^verbatim>\<open>NewManager\<close>: the configuration, an empty health map and a
  fresh context; every other field has its zero value.
\<close>

definition initial_manager :: "Config \<Rightarrow> DBManager" where
  "initial_manager c =
    \<lparr>config = c, db = None, logger = None, healthStatus = Map.empty, lastHealthCheck = 0,
     cancelled = False, wg = 0\<rparr>"

text \<open>
  \<^verbatim>\<open>NewManager\<close>. The variadic \<^verbatim>\<open>logger\<close> is a list whose entries may be \<^verbatim>\<open>nil\<close>. On a
  failure of \<^verbatim>\<open>initDB\<close> the source cancels the context of a manager it then drops, and
  returns; the store is what \<^verbatim>\<open>initDB\<close> left.
\<close>

definition NewManager ::
  "driver \<Rightarrow> store \<Rightarrow> Config option \<Rightarrow> Logger option list \<Rightarrow> store \<times> (error + DBManager)"
where
  "NewManager drv st cfg lg =
    (case cfg of
       None \<Rightarrow> (st, Inl (Errorf ''config cannot be nil''))
     | Some c \<Rightarrow>
         (case validateConfig c of
            Some err \<Rightarrow> (st, Inl (Wrapf ''invalid config: '' err))
          | None \<Rightarrow>
              (let manager0 = initial_manager c;
                   manager = (if length lg > 0 \<and> hd lg \<noteq> None
                              then manager0\<lparr>logger := hd lg\<rparr>
                              else manager0\<lparr>logger := Some (Default (newDefaultLogger manager0))\<rparr>)
               in case initDB drv st manager of
                    (st', Inl err) \<Rightarrow> (st', Inl (Wrapf ''failed to initialize database: '' err))
                  | (st', Inr manager') \<Rightarrow>
                      (st', Inr (if MonitorConfig.Enabled (MonitorConfig c)
                                 then startMonitoring manager' else manager')))))"

subsection \<open>Routing\<close>

text \<open>
  \<^verbatim>\<open>GetDB\<close> returns the pointer as it is. \<^verbatim>\<open>GetMasterDB\<close> and \<^verbatim>\<open>GetSlaveDB\<close> call
  \<^verbatim>\<open>Clauses\<close> on it, which dereferences it, and return the handle tagged with the
  resolver's \<^verbatim>\<open>Write\<close> or \<^verbatim>\<open>Read\<close> clause.
\<close>

datatype Operation = Write | Read

record routedDB =
  target :: gormDB
  clause :: Operation

definition GetDB :: "DBManager \<Rightarrow> gormDB option" where
  "GetDB m = db m"

definition GetMasterDB :: "DBManager \<Rightarrow> routedDB outcome" where
  "GetMasterDB m =
    (case db m of
       None \<Rightarrow> Panicked ''invalid memory address or nil pointer dereference''
     | Some gdb \<Rightarrow> Returned \<lparr>target = gdb, clause = Write\<rparr>)"

definition GetSlaveDB :: "DBManager \<Rightarrow> routedDB outcome" where
  "GetSlaveDB m =
    (case db m of
       None \<Rightarrow> Panicked ''invalid memory address or nil pointer dereference''
     | Some gdb \<Rightarrow> Returned \<lparr>target = gdb, clause = Read\<rparr>)"

text \<open>
  Which data source serves a statement issued on a routed handle is decided by the resolver
  plugin, outside the repository, from the configuration the manager registered:
  \<^verbatim>\<open>RandomPolicy.Resolve\<close> answers \<^verbatim>\<open>connPools[rand.Intn(len(connPools))]\<close>, reads go to
  the replicas (to the sources when there are none), writes to the sources, and a handle
  with no resolver serves everything itself. \<open>draw\<close> is what \<^verbatim>\<open>rand.Intn\<close> gave.
\<close>

definition Resolve :: "Policy \<Rightarrow> Dialector list \<Rightarrow> nat \<Rightarrow> Dialector" where
  "Resolve pol connPools draw = (case pol of RandomPolicy \<Rightarrow> connPools ! (draw mod length connPools))"

definition resolve :: "routedDB \<Rightarrow> nat \<Rightarrow> Dialector" where
  "resolve r draw =
    (case resolver (target r) of
       None \<Rightarrow> dialector (target r)
     | Some rc \<Rightarrow>
         (case clause r of
            Write \<Rightarrow> Resolve (Policy rc) (Sources rc) draw
          | Read \<Rightarrow>
              (if Replicas rc = [] then Resolve (Policy rc) (Sources rc) draw
               else Resolve (Policy rc) (Replicas rc) draw)))"

subsection \<open>Transactions\<close>

text \<open>
  The calls made on a transaction handle, in order. The driver answers \<^verbatim>\<open>Begin\<close> with
  \<open>begin_err\<close> (\<^verbatim>\<open>tx.Error\<close>) and \<^verbatim>\<open>Commit\<close> with \<open>commit_err\<close>. A callback is given the
  handle and yields the statements it issued on it and how it ended: it returned an error
  or \<^verbatim>\<open>nil\<close>, it panicked, or it never returned.
\<close>

datatype tx_call = Begin | Exec string | Commit | Rollback

record txDriver =
  begin_err :: "error option"
  commit_err :: "error option"

type_synonym callback = "routedDB \<Rightarrow> tx_call list \<times> error option outcome"

text \<open>
  \<^verbatim>\<open>Transaction\<close>: the calls made on the transaction and the outcome of the method. The
  deferred function rolls back and panics again only when it recovers a panic; the
  error branch rolls back itself; the commit branch returns the wrapped error as it is.
\<close>

definition Transaction ::
  "DBManager \<Rightarrow> txDriver \<Rightarrow> callback option \<Rightarrow> tx_call list \<times> error option outcome"
where
  "Transaction m drv fn =
    (case fn of
       None \<Rightarrow> ([], Returned (Some (Errorf ''transaction function cannot be nil'')))
     | Some f \<Rightarrow>
         (case GetMasterDB m of
            Panicked r \<Rightarrow> ([], Panicked r)
          | Blocked \<Rightarrow> ([], Blocked)
          | Returned master \<Rightarrow>
              (case begin_err drv of
                 Some err \<Rightarrow>
                   ([Begin], Returned (Some (Wrapf ''failed to begin transaction: '' err)))
               | None \<Rightarrow>
                   (case f master of
                      (calls, Panicked r) \<Rightarrow> ([Begin] @ calls @ [Rollback], Panicked r)
                    | (calls, Blocked) \<Rightarrow> ([Begin] @ calls, Blocked)
                    | (calls, Returned (Some err)) \<Rightarrow>
                        ([Begin] @ calls @ [Rollback], Returned (Some err))
                    | (calls, Returned None) \<Rightarrow>
                        (case commit_err drv of
                           Some err \<Rightarrow>
                             ([Begin] @ calls @ [Commit],
                              Returned (Some (Wrapf ''failed to commit transaction: '' err)))
                         | None \<Rightarrow> ([Begin] @ calls @ [Commit], Returned None))))))"

subsection \<open>Health check\<close>

text \<open>
  \<^verbatim>\<open>fmt.Sprintf("slave_%d", i)\<close> for an index \<open>i\<close> of the replica list: the decimal
  digits of \<open>i\<close>.
\<close>

definition digit :: "nat \<Rightarrow> char" where
  "digit n = ''0123456789'' ! n"

fun decimal :: "nat \<Rightarrow> string" where
  "decimal n = (if n < 10 then [digit n] else decimal (n div 10) @ [digit (n mod 10)])"

definition slave_key :: "nat \<Rightarrow> string" where
  "slave_key i = ''slave_'' @ decimal i"

text \<open>
  What the clock and the driver answer during one \<^verbatim>\<open>checkSingleDB\<close>: \<^verbatim>\<open>time.Now()\<close> at
  entry, \<^verbatim>\<open>time.Since(start)\<close> where the path reads it, and what the ping gives when it
  is let through to the driver (\<open>ping_err\<close>).
\<close>

record probe =
  started :: time
  took :: duration
  ping_err :: "error option"

text \<open>
  \<^verbatim>\<open>sqlDB.PingContext(timeoutCtx)\<close>, where \<^verbatim>\<open>timeoutCtx\<close> is
  \<^verbatim>\<open>context.WithTimeout(ctx, timeout)\<close>: a timeout that is not positive gives a context
  already past its deadline, and the ping answers with that context's error before it
  reaches the driver; otherwise the answer is the driver's.
\<close>

definition PingContext :: "duration \<Rightarrow> error option \<Rightarrow> error option" where
  "PingContext timeout answer =
    (if timeout \<le> 0 then Some (Errorf ''context deadline exceeded'') else answer)"

text \<open>
  \<^verbatim>\<open>checkSingleDB\<close>. The timeout is the manager's
  \<^verbatim>\<open>config.MonitorConfig.ConnectionTimeout\<close>, whether or not monitoring is enabled; the
  \<^verbatim>\<open>name\<close> argument is not read.
\<close>

definition checkSingleDB :: "DBManager \<Rightarrow> probe \<Rightarrow> gormDB \<Rightarrow> string \<Rightarrow> HealthStatus" where
  "checkSingleDB m pr gdb name =
    (let status = \<lparr>IsHealthy = False, LastCheckTime = started pr, ErrorMessage = [],
                   ResponseTime = 0\<rparr>
     in case ConnPool gdb of
          Inl err \<Rightarrow>
            status\<lparr>ErrorMessage := ''failed to get sql.DB: '' @ error_string err,
                   ResponseTime := took pr\<rparr>
        | Inr sqlDB \<Rightarrow>
            (case PingContext (ConnectionTimeout (MonitorConfig (config m))) (ping_err pr) of
               Some err \<Rightarrow>
                 status\<lparr>ResponseTime := took pr,
                        ErrorMessage := ''ping failed: '' @ error_string err\<rparr>
             | None \<Rightarrow> status\<lparr>ResponseTime := took pr, IsHealthy := True\<rparr>))"

text \<open>
  The loop over \<^verbatim>\<open>m.config.Slaves\<close>: entry \<open>i\<close> is probed through the manager's one
  handle, under the key \<^verbatim>\<open>slave_i\<close>. \<open>probes k\<close> is the answer to the \<open>k\<close>-th probe of the
  pass, the primary's being probe 0.
\<close>

fun check_slaves ::
  "DBManager \<Rightarrow> gormDB \<Rightarrow> (nat \<Rightarrow> probe) \<Rightarrow> nat \<Rightarrow> SlaveConfig list
    \<Rightarrow> (string \<rightharpoonup> HealthStatus) \<Rightarrow> (string \<rightharpoonup> HealthStatus)"
where
  "check_slaves m gdb probes i [] result = result"
| "check_slaves m gdb probes i (slaveConfig # rest) result =
    check_slaves m gdb probes (Suc i) rest
      (result(slave_key i \<mapsto> checkSingleDB m (probes (Suc i)) gdb (DSN slaveConfig)))"

text \<open>
  \<^verbatim>\<open>HealthCheck\<close>: the manager after the call and the map returned. \<open>now\<close> is
  \<^verbatim>\<open>time.Now()\<close> at the end of the pass. The only field assigned is
  \<^verbatim>\<open>lastHealthCheck\<close>.
\<close>

definition HealthCheck ::
  "DBManager \<Rightarrow> (nat \<Rightarrow> probe) \<Rightarrow> time \<Rightarrow> (DBManager \<times> (string \<rightharpoonup> HealthStatus)) outcome"
where
  "HealthCheck m probes now =
    (case db m of
       None \<Rightarrow> Panicked ''invalid memory address or nil pointer dereference''
     | Some gdb \<Rightarrow>
         (let result = Map.empty(''master'' \<mapsto> checkSingleDB m (probes 0) gdb ''master'');
              result' = check_slaves m gdb probes 0 (Slaves (config m)) result
          in Returned (m\<lparr>lastHealthCheck := now\<rparr>, result')))"

subsection \<open>Shutdown\<close>

text \<open>
  \<^verbatim>\<open>Close\<close>: cancel the context, wait for the wait group, close the primary's pool.
  \<^verbatim>\<open>wg.Wait()\<close> returns at once on a zero counter; otherwise it returns when the
  monitoring goroutine has left, which is for the scheduler to say (\<open>monitor_exits\<close>).
  \<open>close_err\<close> is what closing the pool's connections gives.
\<close>

record closing =
  monitor_exits :: bool
  close_err :: "error option"

definition Close :: "DBManager \<Rightarrow> store \<Rightarrow> closing \<Rightarrow> (DBManager \<times> store \<times> error option) outcome" where
  "Close m st env =
    (let m1 = m\<lparr>cancelled := True\<rparr> in
     if wg m1 > 0 \<and> \<not> monitor_exits env then Blocked
     else
       (let m2 = m1\<lparr>wg := 0\<rparr> in
        case db m2 of
          None \<Rightarrow> Returned (m2, st, None)
        | Some gdb \<Rightarrow>
            (case ConnPool gdb of
               Inl err \<Rightarrow> Returned (m2, st, None)
             | Inr sqlDB \<Rightarrow>
                 (case sqlDB_Close st sqlDB (close_err env) of
                    (st', r) \<Rightarrow> Returned (m2, st', r)))))"

section \<open>Concrete inputs\<close>

text \<open>
  The configuration of the repository's tests, \<^verbatim>\<open>&Config{Master: ":memory:", Type:
  "sqlite"}\<close>, every other field at its zero value; and a driver on which every call
  succeeds.
\<close>

definition zero_pool :: PoolConfig where
  "zero_pool = \<lparr>MaxOpenConns = 0, MaxIdleConns = 0, ConnMaxLifetime = 0, ConnMaxIdleTime = 0\<rparr>"

definition memory_config :: Config where
  "memory_config =
    \<lparr>Master = '':memory:'', Slaves = [], Type = ''sqlite'', PoolConfig = zero_pool,
     LogConfig = \<lparr>LogConfig.Enabled = False, Level = [], Colorful = False,
                  IgnoreRecordNotFoundError = False, ParameterizedQueries = False\<rparr>,
     SlowQueryConfig = \<lparr>SlowQueryConfig.Enabled = False, Threshold = 0, LogParams = False\<rparr>,
     MonitorConfig = \<lparr>MonitorConfig.Enabled = False, HealthCheckInterval = 0,
                      ConnectionTimeout = 0, MaxRetries = 0\<rparr>\<rparr>"

definition ok_driver :: driver where
  "ok_driver = \<lparr>open_err = (\<lambda>d. None), db_err = None, use_err = (\<lambda>rc. None)\<rparr>"

text \<open>A configuration with no primary DSN.\<close>

definition no_master_config :: Config where
  "no_master_config = memory_config\<lparr>Master := []\<rparr>"

text \<open>
  A replica with no DSN, no engine type, a negative weight and a pool shape with more idle
  than open connections and a negative lifetime.
\<close>

definition malformed_slave :: SlaveConfig where
  "malformed_slave =
    \<lparr>DSN = [], Type = [], Weight = - 1,
     PoolConfig = \<lparr>MaxOpenConns = 1, MaxIdleConns = 5, ConnMaxLifetime = - 1,
                   ConnMaxIdleTime = 0\<rparr>\<rparr>"

text \<open>A replica of an engine type \<^verbatim>\<open>getDialector\<close> does not know.\<close>

definition oracle_config :: Config where
  "oracle_config =
    memory_config\<lparr>Slaves := [\<lparr>DSN = ''replica.db'', Type = ''oracle'', Weight = 1,
                                PoolConfig = zero_pool\<rparr>]\<rparr>"

text \<open>Two replicas, the first of weight 0, the second of weight 1.\<close>

definition weighted_config :: Config where
  "weighted_config =
    memory_config\<lparr>Slaves := [\<lparr>DSN = ''replica0.db'', Type = ''sqlite'', Weight = 0,
                                PoolConfig = zero_pool\<rparr>,
                               \<lparr>DSN = ''replica1.db'', Type = ''sqlite'', Weight = 1,
                                PoolConfig = zero_pool\<rparr>]\<rparr>"

text \<open>
  Slow-operation detection enabled with a threshold of 100 ms, and the default logger of a
  manager on that configuration, set to level Info.
\<close>

definition slow_config :: Config where
  "slow_config =
    memory_config\<lparr>SlowQueryConfig :=
      \<lparr>SlowQueryConfig.Enabled = True, Threshold = 100 * Millisecond, LogParams = False\<rparr>\<rparr>"

definition slow_logger :: DefaultLogger where
  "slow_logger = LogMode (newDefaultLogger (initial_manager slow_config)) Info"

text \<open>
  A callback that inserts a row and returns \<^verbatim>\<open>nil\<close>, one that inserts a row and returns
  an error, and a driver whose commit fails.
\<close>

definition insert_ok :: callback where
  "insert_ok tx = ([Exec ''INSERT''], Returned None)"

definition insert_fail :: callback where
  "insert_fail tx = ([Exec ''INSERT''], Returned (Some (Errorf ''forced rollback'')))"

definition commit_fails :: txDriver where
  "commit_fails = \<lparr>begin_err = None, commit_err = Some (Errorf ''driver: bad connection'')\<rparr>"

definition begin_fails :: txDriver where
  "begin_fails = \<lparr>begin_err = Some (Errorf ''driver: bad connection''), commit_err = None\<rparr>"

definition tx_ok :: txDriver where
  "tx_ok = \<lparr>begin_err = None, commit_err = None\<rparr>"

text \<open>A manager on the tests' configuration whose primary handle is pool 0.\<close>

definition memory_manager :: DBManager where
  "memory_manager =
    (initial_manager memory_config)
      \<lparr>db := Some \<lparr>dialector = SqliteDialector '':memory:'', ConnPool = Inr 0, resolver = None\<rparr>,
       logger := Some (Default (newDefaultLogger (initial_manager memory_config)))\<rparr>"

text \<open>Probes that all succeed in one millisecond, and probes that all fail.\<close>

definition healthy_probes :: "nat \<Rightarrow> probe" where
  "healthy_probes k = \<lparr>started = 1000, took = Millisecond, ping_err = None\<rparr>"

definition failing_probes :: "nat \<Rightarrow> probe" where
  "failing_probes k =
    \<lparr>started = 1000, took = Millisecond, ping_err = Some (Errorf ''context deadline exceeded'')\<rparr>"

text \<open>A store holding the one pool of \<open>memory_manager\<close>, open and closed.\<close>

definition one_pool :: store where
  "one_pool = \<lparr>pools = (\<lambda>p. new_sqlDB), allocated = 1\<rparr>"

definition closed_pool :: store where
  "closed_pool =
    \<lparr>pools = (\<lambda>p. new_sqlDB)(0 := new_sqlDB\<lparr>closed := True\<rparr>), allocated = 1\<rparr>"

text \<open>The same manager on the configuration with two replicas.\<close>

definition weighted_manager :: DBManager where
  "weighted_manager = memory_manager\<lparr>config := weighted_config\<rparr>"

text \<open>
  The tests' configuration with the monitoring options of the repository's example
  (checks every 30 s, a timeout of 5 s, 3 retries), and the manager \<^verbatim>\<open>NewManager\<close> builds
  on it: the monitoring goroutine is in the wait group.
\<close>

definition monitored_config :: Config where
  "monitored_config =
    memory_config\<lparr>MonitorConfig :=
      \<lparr>MonitorConfig.Enabled = True, HealthCheckInterval = 30 * Second,
       ConnectionTimeout = 5 * Second, MaxRetries = 3\<rparr>\<rparr>"

definition monitored_manager :: DBManager where
  "monitored_manager =
    (initial_manager monitored_config)
      \<lparr>db := Some \<lparr>dialector = SqliteDialector '':memory:'', ConnPool = Inr 0, resolver = None\<rparr>,
       logger := Some (Default (newDefaultLogger (initial_manager monitored_config))),
       wg := 1\<rparr>"

text \<open>The statement a traced call reports.\<close>

definition select_one :: "unit \<Rightarrow> string \<times> int" where
  "select_one u = (''SELECT 1'', 1)"

section \<open>Configuration validation\<close>

text \<open>
  C6. \<^verbatim>\<open>validateConfig\<close> is a function of the configuration value alone, and it returns
  an error exactly when the primary DSN is empty, the engine type is empty, a pool limit is
  negative, the idle limit exceeds a positive open limit, monitoring is enabled with a
  non-positive interval or timeout or with negative retries, or slow-operation detection
  is enabled with a non-positive threshold. The absent configuration is refused by
  \<^verbatim>\<open>NewManager\<close> before \<^verbatim>\<open>validateConfig\<close> is called, and a refused configuration
  leaves the store as it was, whatever the driver would have answered.
\<close>

theorem validateConfig_fails_exactly:
  "((validateConfig c \<noteq> None) =
      (Master c = [] \<or> Config.Type c = []
       \<or> MaxOpenConns (Config.PoolConfig c) < 0 \<or> MaxIdleConns (Config.PoolConfig c) < 0
       \<or> (MaxIdleConns (Config.PoolConfig c) > MaxOpenConns (Config.PoolConfig c)
           \<and> MaxOpenConns (Config.PoolConfig c) > 0)
       \<or> (MonitorConfig.Enabled (MonitorConfig c)
           \<and> (HealthCheckInterval (MonitorConfig c) \<le> 0
                \<or> ConnectionTimeout (MonitorConfig c) \<le> 0
                \<or> MaxRetries (MonitorConfig c) < 0))
       \<or> (SlowQueryConfig.Enabled (SlowQueryConfig c) \<and> Threshold (SlowQueryConfig c) \<le> 0)))
   \<and> NewManager drv st None lg = (st, Inl (Errorf ''config cannot be nil''))
   \<and> (\<forall>err. validateConfig c = Some err \<longrightarrow>
          NewManager drv st (Some c) lg = (st, Inl (Wrapf ''invalid config: '' err)))"
proof (intro conjI allI impI)
  show "(validateConfig c \<noteq> None) =
      (Master c = [] \<or> Config.Type c = []
       \<or> MaxOpenConns (Config.PoolConfig c) < 0 \<or> MaxIdleConns (Config.PoolConfig c) < 0
       \<or> (MaxIdleConns (Config.PoolConfig c) > MaxOpenConns (Config.PoolConfig c)
           \<and> MaxOpenConns (Config.PoolConfig c) > 0)
       \<or> (MonitorConfig.Enabled (MonitorConfig c)
           \<and> (HealthCheckInterval (MonitorConfig c) \<le> 0
                \<or> ConnectionTimeout (MonitorConfig c) \<le> 0
                \<or> MaxRetries (MonitorConfig c) < 0))
       \<or> (SlowQueryConfig.Enabled (SlowQueryConfig c) \<and> Threshold (SlowQueryConfig c) \<le> 0))"
    unfolding validateConfig_def by (simp add: not_le not_less)
next
  show "NewManager drv st None lg = (st, Inl (Errorf ''config cannot be nil''))"
    by (simp add: NewManager_def)
next
  fix err
  assume "validateConfig c = Some err"
  then show "NewManager drv st (Some c) lg = (st, Inl (Wrapf ''invalid config: '' err))"
    by (simp add: NewManager_def)
qed

text \<open>
  The configuration with no primary DSN is refused with the wrapped validation error and
  the store untouched.
\<close>

theorem validateConfig_fails_exactly_witness:
  "NewManager ok_driver empty_store (Some no_master_config) [] =
     (empty_store,
      Inl (Wrapf ''invalid config: '' (Errorf ''master database DSN cannot be empty'')))"
proof -
  have v: "validateConfig no_master_config =
             Some (Errorf ''master database DSN cannot be empty'')"
    by (simp add: validateConfig_def no_master_config_def)
  from validateConfig_fails_exactly[of no_master_config ok_driver empty_store "[]"]
  have "\<forall>err. validateConfig no_master_config = Some err \<longrightarrow>
          NewManager ok_driver empty_store (Some no_master_config) [] =
            (empty_store, Inl (Wrapf ''invalid config: '' err))"
    by blast
  with v show ?thesis by blast
qed

text \<open>
  C10. \<^verbatim>\<open>validateConfig\<close> never reads the replica list: replacing it by any other list
  leaves the result unchanged. In particular the tests' configuration still passes with a
  replica that has no DSN, no engine type, a negative weight and an inconsistent pool
  shape.
\<close>

theorem validateConfig_ignores_Slaves:
  "validateConfig (c\<lparr>Slaves := ss\<rparr>) = validateConfig c
   \<and> validateConfig (memory_config\<lparr>Slaves := [malformed_slave]\<rparr>) = None"
  by (simp add: validateConfig_def memory_config_def zero_pool_def)

section \<open>Construction\<close>

text \<open>
  The tests' configuration on a driver that never fails yields \<open>memory_manager\<close> and one
  open pool.
\<close>

lemma NewManager_memory_config:
  "NewManager ok_driver empty_store (Some memory_config) [] = (one_pool, Inr memory_manager)"
  by (simp add: NewManager_def validateConfig_def memory_config_def zero_pool_def initDB_def
      getDialector_def gorm_Open_def ok_driver_def empty_store_def one_pool_def
      configureConnectionPool_def memory_manager_def initial_manager_def newDefaultLogger_def
      fun_eq_iff Let_def)

lemma NewManager_monitored_config:
  "NewManager ok_driver empty_store (Some monitored_config) [] =
     (one_pool, Inr monitored_manager)"
  by (simp add: NewManager_def validateConfig_def monitored_config_def memory_config_def
      zero_pool_def initDB_def getDialector_def gorm_Open_def ok_driver_def empty_store_def
      one_pool_def configureConnectionPool_def monitored_manager_def initial_manager_def
      newDefaultLogger_def startMonitoring_def Second_def Millisecond_def fun_eq_iff Let_def)

text \<open>A manager that \<^verbatim>\<open>NewManager\<close> returns has a handle.\<close>

lemma initDB_db:
  assumes "initDB drv st m = (st', Inr m')"
  shows "db m' \<noteq> None"
  using assms
  by (auto simp add: initDB_def Let_def split: sum.splits prod.splits option.splits if_splits)

lemma NewManager_initDB:
  assumes "NewManager drv st (Some c) lg = (st', Inr m)"
  shows "\<exists>m0 m1. config m0 = c \<and> initDB drv st m0 = (st', Inr m1)
           \<and> m = (if MonitorConfig.Enabled (MonitorConfig c) then startMonitoring m1 else m1)"
proof -
  let ?m0 = "initial_manager c"
  let ?mg = "if length lg > 0 \<and> hd lg \<noteq> None then ?m0\<lparr>logger := hd lg\<rparr>
             else ?m0\<lparr>logger := Some (Default (newDefaultLogger ?m0))\<rparr>"
  from assms have v: "validateConfig c = None"
    by (auto simp add: NewManager_def split: option.splits)
  from assms v obtain m1 where i: "initDB drv st ?mg = (st', Inr m1)"
    and m: "m = (if MonitorConfig.Enabled (MonitorConfig c) then startMonitoring m1 else m1)"
    by (simp add: NewManager_def Let_def split: prod.splits sum.splits)
  have "config ?mg = c" by (simp add: initial_manager_def)
  with i m show ?thesis by blast
qed

lemma NewManager_db:
  assumes "NewManager drv st cfg lg = (st', Inr m)"
  shows "db m \<noteq> None"
proof -
  from assms obtain c where c: "cfg = Some c"
    by (auto simp add: NewManager_def split: option.splits)
  from NewManager_initDB[OF assms[unfolded c]]
  obtain m0 m1 where i: "initDB drv st m0 = (st', Inr m1)"
    and m: "m = (if MonitorConfig.Enabled (MonitorConfig c) then startMonitoring m1 else m1)"
    by blast
  from initDB_db[OF i] m show ?thesis by (simp add: startMonitoring_def)
qed

text \<open>
  C7. \<^verbatim>\<open>NewManager\<close> is claimed to release every handle it opened before it returns an
  error. On the configuration whose one replica names the engine type \<^verbatim>\<open>oracle\<close>, with a
  driver that never fails, the primary is opened, \<^verbatim>\<open>configureDBResolver\<close> refuses the
  replica, and \<^verbatim>\<open>NewManager\<close> returns the error with pool 0 still open.
\<close>

theorem NewManager_leaves_primary_open:
  "snd (NewManager ok_driver empty_store (Some oracle_config) []) =
     Inl (Wrapf ''failed to initialize database: ''
           (Wrapf ''failed to configure db resolver: ''
             (Wrapf ''failed to get dialector for slave replica.db: ''
               (Errorf ''unsupported database type: oracle''))))
   \<and> open_handles (fst (NewManager ok_driver empty_store (Some oracle_config) [])) = [0]"
  by (simp add: NewManager_def validateConfig_def memory_config_def oracle_config_def
      zero_pool_def initDB_def getDialector_def gorm_Open_def ok_driver_def empty_store_def
      configureConnectionPool_def configureDBResolver_def open_handles_def new_sqlDB_def
      initial_manager_def newDefaultLogger_def Let_def)

section \<open>Routing\<close>

text \<open>
  The resolver configuration the manager registers is the same whatever weights the
  replicas carry: no function of the manager reads \<^verbatim>\<open>Weight\<close>.
\<close>

lemma slave_dialectors_ignores_Weight:
  "slave_dialectors (map (\<lambda>s. s\<lparr>Weight := w s\<rparr>) ss) = slave_dialectors ss"
  by (induction ss) (simp_all split: sum.splits)

lemma configureDBResolver_ignores_Weight:
  "configureDBResolver drv (cfg\<lparr>Slaves := map (\<lambda>s. s\<lparr>Weight := w s\<rparr>) (Slaves cfg)\<rparr>) gdb =
   configureDBResolver drv cfg gdb"
  by (simp add: configureDBResolver_def slave_dialectors_ignores_Weight Let_def
      split: sum.splits option.splits)

text \<open>With no replica configured no resolver is registered, and a read is served by the
  primary.\<close>

lemma initDB_without_replicas:
  assumes "initDB drv st m = (st', Inr m')" and "Slaves (config m) = []"
  shows "\<exists>gdb. db m' = Some gdb \<and> resolver gdb = None
           \<and> getDialector (Master (config m)) (Config.Type (config m)) = Inr (dialector gdb)"
  using assms
  by (auto simp add: initDB_def gorm_Open_def configureConnectionPool_def Let_def
      split: sum.splits prod.splits option.splits)

lemma GetSlaveDB_without_replicas:
  assumes "NewManager drv st (Some c) lg = (st', Inr m)" and "Slaves c = []"
  shows "\<exists>gdb. GetSlaveDB m = Returned \<lparr>target = gdb, clause = Read\<rparr>
           \<and> getDialector (Master c) (Config.Type c) = Inr (dialector gdb)
           \<and> resolve \<lparr>target = gdb, clause = Read\<rparr> draw = dialector gdb"
proof -
  from NewManager_initDB[OF assms(1)]
  obtain m0 m1 where cm: "config m0 = c" and i: "initDB drv st m0 = (st', Inr m1)"
    and m: "m = (if MonitorConfig.Enabled (MonitorConfig c) then startMonitoring m1 else m1)"
    by blast
  from initDB_without_replicas[OF i] assms(2) cm
  obtain gdb where g: "db m1 = Some gdb" "resolver gdb = None"
    "getDialector (Master c) (Config.Type c) = Inr (dialector gdb)"
    by auto
  from m g(1) have "db m = Some gdb" by (simp add: startMonitoring_def)
  with g show ?thesis by (simp add: GetSlaveDB_def resolve_def)
qed

text \<open>
  C2. A read through \<^verbatim>\<open>GetSlaveDB\<close> is claimed to pick a replica with probability
  proportional to its weight, and never one of weight 0. On the configuration with two
  replicas of weights 0 and 1 the manager registers both replicas under
  \<^verbatim>\<open>RandomPolicy\<close>, and the draw 0 serves the read from the replica of weight 0.
\<close>

theorem GetSlaveDB_selects_weight_zero_replica:
  "\<exists>st m r.
     NewManager ok_driver empty_store (Some weighted_config) [] = (st, Inr m)
   \<and> GetSlaveDB m = Returned r
   \<and> map_option Replicas (resolver (target r)) =
       Some [SqliteDialector ''replica0.db'', SqliteDialector ''replica1.db'']
   \<and> map_option Policy (resolver (target r)) = Some RandomPolicy
   \<and> resolve r 0 = SqliteDialector ''replica0.db''
   \<and> map DSN (Slaves weighted_config) = [''replica0.db'', ''replica1.db'']
   \<and> map Weight (Slaves weighted_config) = [0, 1]"
  by (simp add: NewManager_def validateConfig_def memory_config_def weighted_config_def
      zero_pool_def initDB_def getDialector_def gorm_Open_def ok_driver_def empty_store_def
      configureConnectionPool_def configureDBResolver_def GetSlaveDB_def resolve_def
      Resolve_def startMonitoring_def initial_manager_def newDefaultLogger_def Let_def)

section \<open>Transactions\<close>

text \<open>
  When the callback returns an error or panics, the rollback is the last call made on the
  transaction, and the error or the panic leaves \<^verbatim>\<open>Transaction\<close> as the callback raised
  it.
\<close>

lemma Transaction_rolls_back:
  assumes "db m = Some gdb" and "begin_err drv = None"
  shows "f \<lparr>target = gdb, clause = Write\<rparr> = (calls, Returned (Some err)) \<Longrightarrow>
           Transaction m drv (Some f) = ([Begin] @ calls @ [Rollback], Returned (Some err))"
    and "f \<lparr>target = gdb, clause = Write\<rparr> = (calls, Panicked r) \<Longrightarrow>
           Transaction m drv (Some f) = ([Begin] @ calls @ [Rollback], Panicked r)"
  using assms by (simp_all add: Transaction_def GetMasterDB_def)

text \<open>
  C1. \<^verbatim>\<open>Transaction\<close> is claimed to roll back on every exit on which a transaction that
  was begun is not committed, the failure of the commit included. With a callback that
  inserts a row and returns \<^verbatim>\<open>nil\<close> and a driver whose commit fails, the calls made on the
  transaction are the begin, the insert and the commit: the wrapped commit error is
  returned and no rollback is made.
\<close>

theorem Transaction_commit_failure_no_rollback:
  "Transaction memory_manager commit_fails (Some insert_ok) =
     ([Begin, Exec ''INSERT'', Commit],
      Returned (Some (Wrapf ''failed to commit transaction: ''
                        (Errorf ''driver: bad connection''))))
   \<and> Rollback \<notin> set (fst (Transaction memory_manager commit_fails (Some insert_ok)))"
  by (simp add: Transaction_def GetMasterDB_def memory_manager_def commit_fails_def
      insert_ok_def)

text \<open>
  C3. On a manager with a handle: when the transaction has begun and the callback returns
  an error, \<^verbatim>\<open>Transaction\<close> rolls back and returns that very error; a failure to begin is
  returned wrapped under \<^verbatim>\<open>failed to begin transaction: \<close> and a failure to commit
  wrapped under \<^verbatim>\<open>failed to commit transaction: \<close>, and no error of the first kind equals
  one of the second.
\<close>

theorem Transaction_errors:
  assumes "db m = Some gdb"
  shows "(begin_err drv = None \<longrightarrow>
            f \<lparr>target = gdb, clause = Write\<rparr> = (calls, Returned (Some err)) \<longrightarrow>
            Transaction m drv (Some f) = ([Begin] @ calls @ [Rollback], Returned (Some err)))
       \<and> (begin_err drv = Some e \<longrightarrow>
            Transaction m drv (Some f) =
              ([Begin], Returned (Some (Wrapf ''failed to begin transaction: '' e))))
       \<and> (begin_err drv = None \<longrightarrow>
            f \<lparr>target = gdb, clause = Write\<rparr> = (calls, Returned None) \<longrightarrow>
            commit_err drv = Some e \<longrightarrow>
            Transaction m drv (Some f) =
              ([Begin] @ calls @ [Commit],
               Returned (Some (Wrapf ''failed to commit transaction: '' e))))
       \<and> Wrapf ''failed to begin transaction: '' e1
           \<noteq> Wrapf ''failed to commit transaction: '' e2"
  using assms by (simp add: Transaction_def GetMasterDB_def)

text \<open>
  The three cases on \<open>memory_manager\<close>: a callback that fails with \<^verbatim>\<open>forced rollback\<close>, a
  driver that cannot begin, and a driver that cannot commit.
\<close>

theorem Transaction_errors_witness:
  "Transaction memory_manager tx_ok (Some insert_fail) =
     ([Begin, Exec ''INSERT'', Rollback], Returned (Some (Errorf ''forced rollback'')))
   \<and> Transaction memory_manager begin_fails (Some insert_ok) =
     ([Begin],
      Returned (Some (Wrapf ''failed to begin transaction: ''
                        (Errorf ''driver: bad connection''))))
   \<and> Transaction memory_manager commit_fails (Some insert_ok) =
     ([Begin, Exec ''INSERT'', Commit],
      Returned (Some (Wrapf ''failed to commit transaction: ''
                        (Errorf ''driver: bad connection''))))"
proof -
  let ?g = "\<lparr>dialector = SqliteDialector '':memory:'', ConnPool = Inr 0, resolver = None\<rparr>"
  have d: "db memory_manager = Some ?g"
    by (simp add: memory_manager_def)
  have a: "Transaction memory_manager tx_ok (Some insert_fail) =
     ([Begin, Exec ''INSERT'', Rollback], Returned (Some (Errorf ''forced rollback'')))"
    using Transaction_errors[OF d, where drv = tx_ok and f = insert_fail
        and calls = "[Exec ''INSERT'']" and err = "Errorf ''forced rollback''"]
    by (simp add: tx_ok_def insert_fail_def)
  have b: "Transaction memory_manager begin_fails (Some insert_ok) =
     ([Begin],
      Returned (Some (Wrapf ''failed to begin transaction: ''
                        (Errorf ''driver: bad connection''))))"
    using Transaction_errors[OF d, where drv = begin_fails and f = insert_ok
        and e = "Errorf ''driver: bad connection''"]
    by (simp add: begin_fails_def)
  have c: "Transaction memory_manager commit_fails (Some insert_ok) =
     ([Begin, Exec ''INSERT'', Commit],
      Returned (Some (Wrapf ''failed to commit transaction: ''
                        (Errorf ''driver: bad connection''))))"
    using Transaction_errors[OF d, where drv = commit_fails and f = insert_ok
        and calls = "[Exec ''INSERT'']" and e = "Errorf ''driver: bad connection''"]
    by (simp add: commit_fails_def insert_ok_def)
  from a b c show ?thesis by blast
qed

section \<open>Health check\<close>

text \<open>The decimal rendering is injective, so distinct replicas get distinct keys.\<close>

lemma digit_inj: "a < 10 \<Longrightarrow> b < 10 \<Longrightarrow> digit a = digit b \<Longrightarrow> a = b"
  using nth_eq_iff_index_eq[of "''0123456789''" a b] by (simp add: digit_def)

lemma decimal_nonempty: "decimal n \<noteq> []"
  by (subst decimal.simps) simp

lemma decimal_inj: "decimal a = decimal b \<Longrightarrow> a = b"
proof (induction a arbitrary: b rule: decimal.induct)
  case (1 n)
  show ?case
  proof (cases "n < 10")
    case True
    show ?thesis
    proof (cases "b < 10")
      case b: True
      from "1.prems" True b have "digit n = digit b"
        by (simp add: decimal.simps[of n] decimal.simps[of b])
      with True b show ?thesis by (simp add: digit_inj)
    next
      case b: False
      from "1.prems" True b have "[digit n] = decimal (b div 10) @ [digit (b mod 10)]"
        by (simp add: decimal.simps[of n] decimal.simps[of b])
      then have "decimal (b div 10) = []" by simp
      with decimal_nonempty show ?thesis by blast
    qed
  next
    case False
    show ?thesis
    proof (cases "b < 10")
      case b: True
      from "1.prems" False b have "decimal (n div 10) @ [digit (n mod 10)] = [digit b]"
        by (simp add: decimal.simps[of n] decimal.simps[of b])
      then have "decimal (n div 10) = []" by simp
      with decimal_nonempty show ?thesis by blast
    next
      case b: False
      from "1.prems" False b
      have "decimal (n div 10) @ [digit (n mod 10)] = decimal (b div 10) @ [digit (b mod 10)]"
        by (simp add: decimal.simps[of n] decimal.simps[of b])
      then have d: "decimal (n div 10) = decimal (b div 10)"
        and m: "digit (n mod 10) = digit (b mod 10)" by simp_all
      from "1.IH"[OF False d] have q: "n div 10 = b div 10" .
      from m have r: "n mod 10 = b mod 10" by (intro digit_inj) simp_all
      from q r show ?thesis by (metis div_mult_mod_eq)
    qed
  qed
qed

lemma slave_key_inj: "slave_key i = slave_key j \<Longrightarrow> i = j"
  by (simp add: slave_key_def decimal_inj)

lemma slave_key_not_master: "slave_key i \<noteq> ''master''"
  by (simp add: slave_key_def)

lemma slave_key_0: "slave_key 0 = ''slave_0''"
  by (simp add: slave_key_def digit_def)

lemma slave_key_1: "slave_key (Suc 0) = ''slave_1''"
  by (simp add: slave_key_def digit_def)

text \<open>
  The loop touches the keys of the replicas it visits and no other, and the entry of
  replica \<open>j\<close> is the result of its own probe.
\<close>

lemma check_slaves_other:
  "k \<notin> slave_key ` {i..<i + length ss} \<Longrightarrow> check_slaves m gdb probes i ss result k = result k"
proof (induction ss arbitrary: i result)
  case Nil
  then show ?case by simp
next
  case (Cons s ss)
  from Cons.prems have here: "k \<noteq> slave_key i" by auto
  from Cons.prems have rest: "k \<notin> slave_key ` {Suc i..<Suc i + length ss}" by auto
  show ?case using Cons.IH[OF rest] here by simp
qed

lemma check_slaves_entry:
  "j < length ss \<Longrightarrow>
     check_slaves m gdb probes i ss result (slave_key (i + j)) =
       Some (checkSingleDB m (probes (Suc (i + j))) gdb (DSN (ss ! j)))"
proof (induction ss arbitrary: i j result)
  case Nil
  then show ?case by simp
next
  case (Cons s ss)
  show ?case
  proof (cases j)
    case 0
    have "slave_key i \<notin> slave_key ` {Suc i..<Suc i + length ss}"
      using slave_key_inj by fastforce
    then show ?thesis using 0 by (simp add: check_slaves_other)
  next
    case (Suc j')
    with Cons.prems have "j' < length ss" by simp
    from Cons.IH[OF this, of "Suc i"] show ?thesis using Suc by simp
  qed
qed

lemma check_slaves_dom:
  "dom (check_slaves m gdb probes i ss result) = dom result \<union> slave_key ` {i..<i + length ss}"
proof (induction ss arbitrary: i result)
  case Nil
  then show ?case by simp
next
  case (Cons s ss)
  have "{i..<i + length (s # ss)} = insert i {Suc i..<Suc i + length ss}" by auto
  then show ?case by (auto simp add: Cons.IH)
qed

text \<open>
  A probe is healthy exactly when the handle gave its pool and the ping succeeded; an
  unhealthy one carries a message.
\<close>

lemma checkSingleDB_healthy:
  "IsHealthy (checkSingleDB m pr gdb name) =
     (\<exists>p. ConnPool gdb = Inr p \<and> 0 < ConnectionTimeout (MonitorConfig (config m))
          \<and> ping_err pr = None)"
  by (auto simp add: checkSingleDB_def PingContext_def Let_def
      split: sum.splits option.splits if_splits)

lemma checkSingleDB_message:
  "\<not> IsHealthy (checkSingleDB m pr gdb name) \<Longrightarrow> ErrorMessage (checkSingleDB m pr gdb name) \<noteq> []"
  by (auto simp add: checkSingleDB_def PingContext_def Let_def
      split: sum.splits option.splits if_splits)

text \<open>
  With a timeout that is not positive every probe of a handle that has its pool is
  unhealthy, with the expired context's error as its message.
\<close>

lemma checkSingleDB_no_timeout:
  assumes "ConnectionTimeout (MonitorConfig (config m)) \<le> 0" and "ConnPool gdb = Inr p"
  shows "checkSingleDB m pr gdb name =
           \<lparr>IsHealthy = False, LastCheckTime = started pr,
            ErrorMessage = ''ping failed: context deadline exceeded'', ResponseTime = took pr\<rparr>"
  using assms by (simp add: checkSingleDB_def PingContext_def Let_def)

text \<open>
  \<^verbatim>\<open>HealthCheck\<close> writes the timestamp and nothing else: the health map of the manager is
  after the call what it was before.
\<close>

lemma HealthCheck_frame:
  assumes "HealthCheck m probes now = Returned (m', result)"
  shows "m' = m\<lparr>lastHealthCheck := now\<rparr>" and "healthStatus m' = healthStatus m"
  using assms by (auto simp add: HealthCheck_def Let_def split: option.splits)

text \<open>
  C4. \<^verbatim>\<open>HealthCheck\<close> is claimed to update the manager's health map as well as the
  timestamp. On \<open>monitored_manager\<close>, as \<^verbatim>\<open>NewManager\<close> builds it, a pass over a primary that
  answers the ping within the timeout returns a map with a healthy entry \<^verbatim>\<open>master\<close> and
  sets the timestamp, and the manager's own map still has no entry for \<^verbatim>\<open>master\<close>.
\<close>

theorem HealthCheck_leaves_healthStatus_empty:
  "HealthCheck monitored_manager healthy_probes 2000 =
     Returned (monitored_manager\<lparr>lastHealthCheck := 2000\<rparr>,
               Map.empty(''master'' \<mapsto>
                 \<lparr>IsHealthy = True, LastCheckTime = 1000, ErrorMessage = [],
                  ResponseTime = Millisecond\<rparr>))
   \<and> healthStatus (monitored_manager\<lparr>lastHealthCheck := 2000\<rparr>) ''master'' = None
   \<and> lastHealthCheck (monitored_manager\<lparr>lastHealthCheck := 2000\<rparr>) = 2000"
  by (simp add: HealthCheck_def monitored_manager_def initial_manager_def monitored_config_def
      memory_config_def checkSingleDB_def PingContext_def healthy_probes_def Second_def
      Millisecond_def Let_def)

text \<open>
  On the tests' configuration, whose timeout is 0, the same pass returns an unhealthy entry
  whatever the primary would answer, and again the manager's own map stays empty.
\<close>

lemma HealthCheck_memory_manager:
  "HealthCheck memory_manager healthy_probes 2000 =
     Returned (memory_manager\<lparr>lastHealthCheck := 2000\<rparr>,
               Map.empty(''master'' \<mapsto>
                 \<lparr>IsHealthy = False, LastCheckTime = 1000,
                  ErrorMessage = ''ping failed: context deadline exceeded'',
                  ResponseTime = Millisecond\<rparr>))
   \<and> healthStatus (memory_manager\<lparr>lastHealthCheck := 2000\<rparr>) ''master'' = None"
  by (simp add: HealthCheck_def memory_manager_def initial_manager_def memory_config_def
      checkSingleDB_def PingContext_def healthy_probes_def Let_def)

text \<open>
  C5. On a manager with a handle, whatever the probes answer, \<^verbatim>\<open>HealthCheck\<close> returns
  (it does not panic) a map whose keys are \<^verbatim>\<open>master\<close> and \<^verbatim>\<open>slave_i\<close> for each index \<open>i\<close>
  of the configured replicas, one entry each; the entry of each data source is the result
  of its own probe, which is healthy exactly when the handle gave its pool, the timeout is
  positive and the ping succeeded; and every entry that is not healthy carries an error
  message.
\<close>

theorem HealthCheck_full_map:
  assumes "db m = Some gdb"
  shows "\<exists>m' result.
           HealthCheck m probes now = Returned (m', result)
         \<and> dom result = insert ''master'' (slave_key ` {..<length (Slaves (config m))})
         \<and> card (dom result) = Suc (length (Slaves (config m)))
         \<and> result ''master'' = Some (checkSingleDB m (probes 0) gdb ''master'')
         \<and> (\<forall>i<length (Slaves (config m)).
               result (slave_key i) =
                 Some (checkSingleDB m (probes (Suc i)) gdb (DSN (Slaves (config m) ! i))))
         \<and> (\<forall>k status. result k = Some status \<longrightarrow>
               IsHealthy status \<or> ErrorMessage status \<noteq> [])
         \<and> (\<forall>pr name. IsHealthy (checkSingleDB m pr gdb name) =
               (\<exists>p. ConnPool gdb = Inr p
                    \<and> 0 < ConnectionTimeout (MonitorConfig (config m))
                    \<and> ping_err pr = None))"
proof -
  let ?ss = "Slaves (config m)"
  let ?r0 = "Map.empty(''master'' \<mapsto> checkSingleDB m (probes 0) gdb ''master'')"
  let ?res = "check_slaves m gdb probes 0 ?ss ?r0"
  have hc: "HealthCheck m probes now = Returned (m\<lparr>lastHealthCheck := now\<rparr>, ?res)"
    using assms by (simp add: HealthCheck_def Let_def)
  have d: "dom ?res = insert ''master'' (slave_key ` {..<length ?ss})"
    by (simp add: check_slaves_dom lessThan_atLeast0)
  have i: "inj_on slave_key {..<length ?ss}"
    by (rule inj_onI) (rule slave_key_inj)
  have nm: "''master'' \<notin> slave_key ` {..<length ?ss}"
    using slave_key_not_master by fastforce
  have c: "card (dom ?res) = Suc (length ?ss)"
    using nm by (simp add: d card_image[OF i])
  have "''master'' \<notin> slave_key ` {0..<0 + length ?ss}"
    using slave_key_not_master by fastforce
  then have ma: "?res ''master'' = Some (checkSingleDB m (probes 0) gdb ''master'')"
    by (simp add: check_slaves_other)
  have sl: "\<forall>i<length ?ss. ?res (slave_key i) =
                 Some (checkSingleDB m (probes (Suc i)) gdb (DSN (?ss ! i)))"
    using check_slaves_entry[of _ ?ss m gdb probes 0 ?r0] by simp
  have en: "IsHealthy status \<or> ErrorMessage status \<noteq> []"
    if r: "?res k = Some status" for k status
  proof -
    from r have "k \<in> dom ?res" by blast
    with d consider "k = ''master''" | j where "j < length ?ss" "k = slave_key j" by auto
    then obtain pr name where "status = checkSingleDB m pr gdb name"
    proof cases
      case 1
      with ma r have "status = checkSingleDB m (probes 0) gdb ''master''" by simp
      then show ?thesis by (rule that)
    next
      case 2
      with sl r have "status = checkSingleDB m (probes (Suc j)) gdb (DSN (?ss ! j))" by simp
      then show ?thesis by (rule that)
    qed
    then show ?thesis using checkSingleDB_message by blast
  qed
  show ?thesis using hc d c ma sl en checkSingleDB_healthy by simp
qed

text \<open>
  With two replicas and every ping failing, the pass returns the three entries, and the
  second replica's is unhealthy with the ping's error as its message.
\<close>

theorem HealthCheck_full_map_witness:
  "\<exists>m' result.
     HealthCheck weighted_manager failing_probes 2000 = Returned (m', result)
   \<and> dom result = {''master'', ''slave_0'', ''slave_1''}
   \<and> card (dom result) = 3
   \<and> map_option IsHealthy (result ''slave_1'') = Some False
   \<and> map_option ErrorMessage (result ''slave_1'') =
       Some ''ping failed: context deadline exceeded''"
proof -
  let ?g = "\<lparr>dialector = SqliteDialector '':memory:'', ConnPool = Inr 0, resolver = None\<rparr>"
  have d: "db weighted_manager = Some ?g"
    by (simp add: weighted_manager_def memory_manager_def)
  have n: "length (Slaves (config weighted_manager)) = 2"
    by (simp add: weighted_manager_def weighted_config_def)
  have k: "slave_key ` {..<2} = {''slave_0'', ''slave_1''}"
  proof -
    have "{..<2::nat} = {0, 1}" by auto
    then have "slave_key ` {..<2} = {slave_key 0, slave_key (Suc 0)}" by simp
    then show ?thesis by (simp only: slave_key_0 slave_key_1)
  qed
  have s: "checkSingleDB weighted_manager (failing_probes 2) ?g
             (DSN (Slaves (config weighted_manager) ! 1)) =
        \<lparr>IsHealthy = False, LastCheckTime = 1000,
         ErrorMessage = ''ping failed: context deadline exceeded'',
         ResponseTime = Millisecond\<rparr>"
    by (simp add: checkSingleDB_def PingContext_def failing_probes_def Let_def)
  from HealthCheck_full_map[OF d, of failing_probes 2000]
  obtain m' result where
    r: "HealthCheck weighted_manager failing_probes 2000 = Returned (m', result)"
      "dom result = insert ''master'' (slave_key ` {..<length (Slaves (config weighted_manager))})"
      "card (dom result) = Suc (length (Slaves (config weighted_manager)))"
      "\<forall>i<length (Slaves (config weighted_manager)).
          result (slave_key i) =
            Some (checkSingleDB weighted_manager (failing_probes (Suc i)) ?g
                   (DSN (Slaves (config weighted_manager) ! i)))"
    by (elim exE conjE) (rule that)
  from r(4) n have "result (slave_key 1) =
      Some (checkSingleDB weighted_manager (failing_probes (Suc 1)) ?g
                 (DSN (Slaves (config weighted_manager) ! 1)))" by simp
  then have e: "result ''slave_1'' =
      Some \<lparr>IsHealthy = False, LastCheckTime = 1000,
            ErrorMessage = ''ping failed: context deadline exceeded'',
            ResponseTime = Millisecond\<rparr>"
    using s by (simp add: slave_key_1 numeral_2_eq_2)
  from r(1) r(2) r(3) n k e show ?thesis by auto
qed

section \<open>Shutdown\<close>

text \<open>
  C9. Whenever a call of \<^verbatim>\<open>Close\<close> returns, with or without an error, a second call on
  the manager and store it left returns \<^verbatim>\<open>nil\<close>: it neither panics nor waits, whatever
  the scheduler and the driver would answer, and it changes nothing.
\<close>

theorem Close_idempotent:
  assumes "Close m st env1 = Returned (m1, st1, r1)"
  shows "Close m1 st1 env2 = Returned (m1, st1, None)"
  using assms
  by (auto simp add: Close_def sqlDB_Close_def Let_def
      split: if_splits option.splits sum.splits)

text \<open>
  \<open>memory_manager\<close> is closed once, and then again with a driver that would fail and a
  monitoring goroutine that would never leave.
\<close>

theorem Close_idempotent_witness:
  "Close memory_manager one_pool \<lparr>monitor_exits = True, close_err = None\<rparr> =
     Returned (memory_manager\<lparr>cancelled := True\<rparr>, closed_pool, None)
   \<and> Close (memory_manager\<lparr>cancelled := True\<rparr>) closed_pool
         \<lparr>monitor_exits = False, close_err = Some (Errorf ''driver: bad connection'')\<rparr> =
     Returned (memory_manager\<lparr>cancelled := True\<rparr>, closed_pool, None)"
proof -
  have h: "Close memory_manager one_pool \<lparr>monitor_exits = True, close_err = None\<rparr> =
     Returned (memory_manager\<lparr>cancelled := True\<rparr>, closed_pool, None)"
    by (simp add: Close_def sqlDB_Close_def memory_manager_def initial_manager_def
        one_pool_def closed_pool_def new_sqlDB_def Let_def)
  from Close_idempotent[OF h] h show ?thesis by blast
qed

section \<open>Tracing\<close>

text \<open>
  C8, as it is written, measures a slow call against the configured slow-operation
  threshold. The default logger of a manager configured with a threshold of 100 ms, set to
  level Info, traces a call of 150 ms without error at Info; by the claim it would be a
  Warn.
\<close>

theorem Trace_configured_threshold_counterexample:
  "map line_level (emitted slow_logger (Trace slow_logger 0 (150 * Millisecond) select_one None))
     = [Some Info]
   \<and> trace_spec (Threshold (SlowQueryConfig slow_config)) (logLevel slow_logger)
        (150 * Millisecond - 0) None
     = [Some Warn]
   \<and> Info \<noteq> Warn"
  by (simp add: Trace_def emitted_def line_level_def trace_spec_def trace_class_def printf_def
      Printf_def getSlowThreshold_def Silent_def Error_def Warn_def Info_def Let_def
      slow_logger_def slow_config_def LogMode_def newDefaultLogger_def initial_manager_def
      Millisecond_def select_one_def)

text \<open>
  C8, amended. For a logger whose level is at most Info (the four named levels, and the
  zero level of a logger never configured): at Silent or below \<^verbatim>\<open>Trace\<close> emits nothing;
  otherwise it classifies the call as Error when there is an error, as Warn when there is
  none and the elapsed time exceeds the fixed 200 ms of \<^verbatim>\<open>getSlowThreshold\<close>, and as Info
  otherwise, and it emits one line of that class exactly when the class is at or below the
  logger's level.
\<close>

theorem Trace_fixed_threshold:
  assumes "logLevel l \<le> Info"
  shows "map line_level (emitted l (Trace l begin now fc err)) =
         trace_spec (200 * Millisecond) (logLevel l) (now - begin) err"
  using assms
  by (auto simp add: Trace_def emitted_def line_level_def trace_spec_def trace_class_def
      printf_def Printf_def getSlowThreshold_def Silent_def Error_def Warn_def Info_def Let_def
      split: prod.splits)

text \<open>The call of 150 ms is below 200 ms, and the logger at Info emits it at Info.\<close>

theorem Trace_fixed_threshold_witness:
  "map line_level
     (emitted slow_logger (Trace slow_logger 0 (150 * Millisecond) select_one None)) =
   [Some Info]"
proof -
  have l: "logLevel slow_logger \<le> Info"
    by (simp add: slow_logger_def LogMode_def)
  have "trace_spec (200 * Millisecond) (logLevel slow_logger) (150 * Millisecond - 0) None =
          [Some Info]"
    by (simp add: trace_spec_def trace_class_def slow_logger_def LogMode_def Millisecond_def
        Silent_def Info_def)
  with Trace_fixed_threshold[OF l, of 0 "150 * Millisecond" select_one None]
  show ?thesis by simp
qed

end
